theory Spec2Isabelle
  imports Complex_Main
begin

text \<open>
  A model of the two notebooks: the dataset wrapper, the classifiers, the training module
  of the second notebook and the epoch loop of the first. The notebooks are glue around
  libraries; what they call there (indexing a tensor, a linear layer, \<open>squeeze\<close>, the
  shape check of the loss, \<open>random_split\<close>, \<open>no_grad\<close>) is modelled by its documented
  behaviour, and what the libraries compute in floating point or draw at random (the
  value of a loss, the update of an optimizer, initial weights, a permutation) is an
  argument of the model.
\<close>

section \<open>Errors\<close>

text \<open>
  The exceptions the notebooks' code can raise, as values. The specification names the
  conditions abstractly; the Python names are kept here:
  \<^item> \<open>IndexError\<close>: an index outside the range a tensor or a list accepts;
  \<^item> \<open>ShapeMismatch\<close>: the \<open>RuntimeError\<close> of the tensor engine when the last
    dimension of an input differs from \<open>in_features\<close> of a linear layer;
  \<^item> \<open>ZeroDivisionError\<close>: Python's division by zero (the specification's EmptyBatch
    condition: the average over an empty batch collection);
  \<^item> \<open>ValueError\<close>: a loss rule applied to an input and a target of different shapes,
    a split whose lengths do not add up to the length of the dataset, or an index that
    overflows a signed 64-bit integer;
  \<^item> \<open>TypeError\<close>: the length of a tensor that has no dimension.
\<close>

datatype error = IndexError | ShapeMismatch | ZeroDivisionError | ValueError | TypeError

section \<open>Tensors\<close>

text \<open>
  A tensor of the engine is a shape and the flat, row-major storage of its elements. The
  element type \<open>'a\<close> stands for 32-bit floats; only the operations the code uses are
  required of it (a zero, addition, multiplication, an order), and no law of arithmetic
  is assumed, so every theorem holds for floating-point numbers as well.
\<close>

record 'a tensor =
  shape :: "nat list"
  data :: "'a list"

definition numel :: "'a tensor \<Rightarrow> nat" where
  "numel t = prod_list (shape t)"

text \<open>\<open>torch.tensor\<close> of a scalar, of a vector and of a table with \<open>w\<close> columns.\<close>

definition tensor0 :: "'a \<Rightarrow> 'a tensor" where
  "tensor0 v = \<lparr>shape = [], data = [v]\<rparr>"

definition tensor1 :: "'a list \<Rightarrow> 'a tensor" where
  "tensor1 vs = \<lparr>shape = [length vs], data = vs\<rparr>"

definition tensor2 :: "nat \<Rightarrow> 'a list list \<Rightarrow> 'a tensor" where
  "tensor2 w rows = \<lparr>shape = [length rows, w], data = concat rows\<rparr>"

text \<open>The storage cut into \<open>n\<close> consecutive rows of \<open>k\<close> elements.\<close>

fun rows_of :: "nat \<Rightarrow> nat \<Rightarrow> 'a list \<Rightarrow> 'a list list" where
  "rows_of 0 k xs = []"
| "rows_of (Suc n) k xs = take k xs # rows_of n k (drop k xs)"

text \<open>\<open>Tensor.squeeze()\<close>: every dimension of size 1 is removed, the storage is kept.\<close>

definition squeeze :: "'a tensor \<Rightarrow> 'a tensor" where
  "squeeze t = t\<lparr>shape := filter (\<lambda>d. d \<noteq> 1) (shape t)\<rparr>"

section \<open>Layers\<close>

text \<open>
  \<open>nn.Linear(in_features, out_features)\<close> owns a weight matrix of \<open>out_features\<close> rows
  and \<open>in_features\<close> columns and a bias vector. The constructor draws the initial values
  from the random generator; the draw is its last argument.
\<close>

record 'a Linear =
  in_features :: nat
  out_features :: nat
  weight :: "'a list list"
  bias :: "'a list"

type_synonym 'a init = "(nat \<Rightarrow> nat \<Rightarrow> 'a) \<times> (nat \<Rightarrow> 'a)"

definition nn_Linear :: "nat \<Rightarrow> nat \<Rightarrow> 'a init \<Rightarrow> 'a Linear" where
  "nn_Linear i o_ini ini =
     \<lparr>in_features = i, out_features = o_ini,
      weight = map (\<lambda>j. map (\<lambda>k. fst ini j k) [0..<i]) [0..<o_ini],
      bias = map (snd ini) [0..<o_ini]\<rparr>"

text \<open>
  The shape the constructor gives a layer; an update of the parameters changes their
  values and keeps it.
\<close>

definition Linear_ok :: "'a Linear \<Rightarrow> bool" where
  "Linear_ok l =
     (length (weight l) = out_features l \<and> length (bias l) = out_features l \<and>
      list_all (\<lambda>r. length r = in_features l) (weight l))"

text \<open>
  One output of the layer is the sum of the products of a row of the input with a row
  of the weights, plus the bias. The order in which the engine adds is its own; no
  property below depends on it.
\<close>

definition dot :: "'a::{zero,plus,times} list \<Rightarrow> 'a list \<Rightarrow> 'a" where
  "dot xs ws = foldl (+) 0 (map2 (*) xs ws)"

definition affine :: "'a::{zero,plus,times} Linear \<Rightarrow> 'a list \<Rightarrow> 'a list" where
  "affine l x = map2 (\<lambda>w b. dot x w + b) (weight l) (bias l)"

text \<open>
  The forward computation of a linear layer: the input's last dimension must be
  \<open>in_features\<close> (the engine raises otherwise, also for a tensor with no dimension);
  every row of the input is mapped to a row of \<open>out_features\<close> values.
\<close>

definition Linear_forward ::
  "'a::{zero,plus,times} Linear \<Rightarrow> 'a tensor \<Rightarrow> error + 'a tensor" where
  "Linear_forward l t =
     (if shape t = [] then Inl ShapeMismatch
      else if last (shape t) \<noteq> in_features l then Inl ShapeMismatch
      else Inr \<lparr>shape = butlast (shape t) @ [out_features l],
                data = concat (map (affine l)
                  (rows_of (prod_list (butlast (shape t))) (in_features l) (data t)))\<rparr>)"

text \<open>\<open>nn.ReLU()\<close>: the activation \<open>relu\<close>, elementwise.\<close>

definition relu :: "'a::{zero,ord} \<Rightarrow> 'a" where
  "relu v = (if v \<le> 0 then 0 else v)"

definition ReLU :: "'a::{zero,ord} tensor \<Rightarrow> 'a tensor" where
  "ReLU t = t\<lparr>data := map relu (data t)\<rparr>"

section \<open>The configurable classifier\<close>

text \<open>
  \<open>nn.Module\<close> keeps the mode flag that \<open>train()\<close> and \<open>eval()\<close> (here \<open>eval_mode\<close>)
  set; the classifiers extend it with their layers.
\<close>

record nn_Module =
  training :: bool

definition train :: "'z nn_Module_scheme \<Rightarrow> 'z nn_Module_scheme" where
  "train m = m\<lparr>training := True\<rparr>"

definition eval_mode :: "'z nn_Module_scheme \<Rightarrow> 'z nn_Module_scheme" where
  "eval_mode m = m\<lparr>training := False\<rparr>"

record 'a BreastCancerClassifier = nn_Module +
  layers :: "'a Linear list"

text \<open>
  The loop \<open>for _ in range(hidden_layers - 1)\<close> of the constructor; the \<open>k\<close>-th layer
  constructed takes the \<open>k\<close>-th draw of the generator.
\<close>

fun append_hidden ::
  "nat \<Rightarrow> nat \<Rightarrow> (nat \<Rightarrow> 'a init) \<Rightarrow> 'a Linear list \<Rightarrow> 'a Linear list" where
  "append_hidden 0 hidden_neurons ini ls = ls"
| "append_hidden (Suc n) hidden_neurons ini ls =
     append_hidden n hidden_neurons ini
       (ls @ [nn_Linear hidden_neurons hidden_neurons (ini (length ls))])"

text \<open>
  \<open>BreastCancerClassifier(hidden_layers, hidden_neurons)\<close>, the configurable classifier
  of the second notebook. \<open>hidden_layers\<close> is a Python integer; \<open>range\<close> of a number
  below 1 is empty. \<open>hidden_neurons\<close> is a width. A new module is in training mode.
\<close>

definition BreastCancerClassifier_init ::
  "int \<Rightarrow> nat \<Rightarrow> (nat \<Rightarrow> 'a init) \<Rightarrow> 'a BreastCancerClassifier" where
  "BreastCancerClassifier_init hidden_layers hidden_neurons ini =
     (let ls1 = [nn_Linear 30 hidden_neurons (ini 0)];
          ls2 = append_hidden (nat (hidden_layers - 1)) hidden_neurons ini ls1;
          ls3 = ls2 @ [nn_Linear hidden_neurons 1 (ini (length ls2))]
      in \<lparr>training = True, layers = ls3\<rparr>)"

text \<open>
  \<open>forward\<close>: the loop over \<open>self.layers[:-1]\<close> applies a layer, then the activation; the
  last layer is applied without activation. \<open>self.layers[-1]\<close> of an empty list raises.
\<close>

fun hidden_loop ::
  "'a::{zero,plus,times,ord} Linear list \<Rightarrow> 'a tensor \<Rightarrow> error + 'a tensor" where
  "hidden_loop [] x = Inr x"
| "hidden_loop (layer # ls) x =
     (case Linear_forward layer x of
        Inl e \<Rightarrow> Inl e
      | Inr y \<Rightarrow> hidden_loop ls (ReLU y))"

definition forward ::
  "'a::{zero,plus,times,ord} BreastCancerClassifier \<Rightarrow> 'a tensor \<Rightarrow> error + 'a tensor" where
  "forward m x =
     (case hidden_loop (butlast (layers m)) x of
        Inl e \<Rightarrow> Inl e
      | Inr y \<Rightarrow>
          (if layers m = [] then Inl IndexError
           else Linear_forward (last (layers m)) y))"

section \<open>The fixed classifiers\<close>

text \<open>
  The \<open>BreastCancerClassifier\<close> of the first notebook: one linear layer from 30 features
  to 1 output.
\<close>

record 'a LinearClassifier = nn_Module +
  layer1 :: "'a Linear"

definition LinearClassifier_init :: "(nat \<Rightarrow> 'a init) \<Rightarrow> 'a LinearClassifier" where
  "LinearClassifier_init ini = \<lparr>training = True, layer1 = nn_Linear 30 1 (ini 0)\<rparr>"

definition forward_linear ::
  "'a::{zero,plus,times} LinearClassifier \<Rightarrow> 'a tensor \<Rightarrow> error + 'a tensor" where
  "forward_linear m x = Linear_forward (LinearClassifier.layer1 m) x"

text \<open>
  The first \<open>BreastCancerClassifier\<close> of the second notebook: three layers, 30 to 20 to
  10 to 1, with the activation after the first and the second.
\<close>

record 'a FixedClassifier = nn_Module +
  layer1 :: "'a Linear"
  layer2 :: "'a Linear"
  layer3 :: "'a Linear"

definition FixedClassifier_init :: "(nat \<Rightarrow> 'a init) \<Rightarrow> 'a FixedClassifier" where
  "FixedClassifier_init ini =
     \<lparr>training = True, layer1 = nn_Linear 30 20 (ini 0), layer2 = nn_Linear 20 10 (ini 1),
      layer3 = nn_Linear 10 1 (ini 2)\<rparr>"

definition forward_fixed ::
  "'a::{zero,plus,times,ord} FixedClassifier \<Rightarrow> 'a tensor \<Rightarrow> error + 'a tensor" where
  "forward_fixed m x =
     (case Linear_forward (FixedClassifier.layer1 m) x of
        Inl e \<Rightarrow> Inl e
      | Inr x1 \<Rightarrow>
          (case Linear_forward (layer2 m) (ReLU x1) of
             Inl e \<Rightarrow> Inl e
           | Inr x2 \<Rightarrow> Linear_forward (layer3 m) (ReLU x2)))"

section \<open>The dataset\<close>

text \<open>
  Indexing a tensor with a Python integer selects along the first dimension. The engine
  first unpacks the index into a signed 64-bit integer and raises \<open>ValueError\<close> (an
  overflow) when it does not fit. It then accepts the indices from \<open>- n\<close> up to \<open>n - 1\<close>
  for a first dimension of size \<open>n\<close>, a negative index counting from the end, and raises
  \<open>IndexError\<close> for every other index and for a tensor with no dimension.
\<close>

definition fits_int64 :: "int \<Rightarrow> bool" where
  "fits_int64 idx = (- (2 ^ 63) \<le> idx \<and> idx < 2 ^ 63)"

definition select :: "'a tensor \<Rightarrow> int \<Rightarrow> error + 'a tensor" where
  "select t idx =
     (if \<not> fits_int64 idx then Inl ValueError
      else case shape t of
        [] \<Rightarrow> Inl IndexError
      | n # ds \<Rightarrow>
          (let j = (if idx < 0 then idx + int n else idx)
           in if 0 \<le> j \<and> j < int n
              then Inr \<lparr>shape = ds,
                        data = take (prod_list ds) (drop (nat j * prod_list ds) (data t))\<rparr>
              else Inl IndexError))"

record 'a CancerDataset =
  features :: "'a tensor"
  targets :: "'a tensor"

text \<open>
  The constructor converts the table of features and the column of targets, given as the
  arrays of their values, into tensors of 32-bit floats (\<open>cast\<close>).
\<close>

definition CancerDataset_init ::
  "('b \<Rightarrow> 'a) \<Rightarrow> 'b tensor \<Rightarrow> 'b tensor \<Rightarrow> 'a CancerDataset" where
  "CancerDataset_init cast fvalues tvalues =
     \<lparr>features = \<lparr>shape = shape fvalues, data = map cast (data fvalues)\<rparr>,
      targets = \<lparr>shape = shape tvalues, data = map cast (data tvalues)\<rparr>\<rparr>"

text \<open>\<open>__len__\<close>: \<open>len\<close> of the features, the size of their first dimension.\<close>

definition len :: "'a CancerDataset \<Rightarrow> error + nat" where
  "len d = (case shape (features d) of [] \<Rightarrow> Inl TypeError | n # ds \<Rightarrow> Inr n)"

definition getitem :: "'a CancerDataset \<Rightarrow> int \<Rightarrow> error + ('a tensor \<times> 'a tensor)" where
  "getitem d idx =
     (case select (features d) idx of
        Inl e \<Rightarrow> Inl e
      | Inr x \<Rightarrow>
          (case select (targets d) idx of
             Inl e \<Rightarrow> Inl e
           | Inr y \<Rightarrow> Inr (x, y)))"

section \<open>The random split\<close>

text \<open>
  \<open>random_split(dataset, [0.8, 0.2])\<close> of the data loading library, for a dataset of
  \<open>n\<close> rows. The library takes the floor of \<open>n\<close> times each fraction (\<open>floors\<close>, computed
  in floating point, hence an argument here), hands the remainder out round-robin, one
  row at a time, refuses lengths that do not add up to \<open>n\<close>, and cuts a random
  permutation of the indices (\<open>perm\<close>, the generator's draw) into consecutive slices of
  these lengths. The model is of a call with fractions, at least one, that add up to 1,
  as the notebooks' call is.
\<close>

fun round_robin :: "nat \<Rightarrow> nat \<Rightarrow> nat list \<Rightarrow> nat list" where
  "round_robin 0 i lengths = lengths"
| "round_robin (Suc r) i lengths =
     round_robin r (Suc i)
       (lengths[i mod length lengths := lengths ! (i mod length lengths) + 1])"

fun slices :: "nat list \<Rightarrow> 'i list \<Rightarrow> 'i list list" where
  "slices [] indices = []"
| "slices (l # ls) indices = take l indices # slices ls (drop l indices)"

definition random_split :: "nat \<Rightarrow> nat list \<Rightarrow> nat list \<Rightarrow> error + nat list list" where
  "random_split n floors perm =
     (let remainder = int n - int (sum_list floors);
          lengths = round_robin (nat remainder) 0 floors
      in if sum_list lengths \<noteq> n then Inl ValueError
         else Inr (slices lengths perm))"

text \<open>The floors of \<open>0.8 n\<close> and \<open>0.2 n\<close>, computed exactly.\<close>

definition split_floors :: "nat \<Rightarrow> nat list" where
  "split_floors n = [(n * 4) div 5, n div 5]"

section \<open>The training module of the second notebook\<close>

text \<open>
  \<open>nn.BCEWithLogitsLoss()\<close> refuses a target whose shape differs from the input's;
  otherwise it reduces the two storages to one scalar. The reduction \<open>rule\<close> is the
  engine's arithmetic and stays an argument.
\<close>

definition BCEWithLogitsLoss ::
  "('a list \<Rightarrow> 'a list \<Rightarrow> 'a) \<Rightarrow> 'a tensor \<Rightarrow> 'a tensor \<Rightarrow> error + 'a tensor" where
  "BCEWithLogitsLoss rule input target =
     (if shape target \<noteq> shape input then Inl ValueError
      else Inr (tensor0 (rule (data input) (data target))))"

text \<open>
  \<open>BreastCancerModule\<close> holds the classifier and the learning rate; \<open>self.log\<close> appends
  to the metrics the experiment tracker receives. The module is written for any
  classifier: \<open>fwd\<close> is the \<open>forward\<close> method of the classifier it holds, and \<open>rule\<close>
  the reduction of its loss function.
\<close>

record ('m, 'a) BreastCancerModule = nn_Module +
  model :: 'm
  learning_rate :: 'a
  logged :: "(string \<times> 'a tensor) list"

definition BreastCancerModule_init :: "'m \<Rightarrow> 'a \<Rightarrow> ('m, 'a) BreastCancerModule" where
  "BreastCancerModule_init classifier lr =
     \<lparr>training = True, model = classifier, learning_rate = lr, logged = []\<rparr>"

definition module_forward ::
  "('m \<Rightarrow> 'a tensor \<Rightarrow> error + 'a tensor) \<Rightarrow> ('m, 'a) BreastCancerModule \<Rightarrow> 'a tensor \<Rightarrow>
   error + 'a tensor" where
  "module_forward fwd self x =
     (case fwd (model self) x of Inl e \<Rightarrow> Inl e | Inr y \<Rightarrow> Inr (squeeze y))"

text \<open>
  The two steps compute the prediction and the loss and log the loss. Neither touches
  the engine's switch for gradient tracking: \<open>tracking\<close> is the setting in force where
  the step is called. Every parameter of a linear layer requires a gradient (the
  notebooks freeze none), so the loss a step returns carries the gradient graph
  (\<open>requires_grad\<close>, the second component of the result) exactly when the switch is on.
\<close>

definition training_step ::
  "('m \<Rightarrow> 'a tensor \<Rightarrow> error + 'a tensor) \<Rightarrow> ('a list \<Rightarrow> 'a list \<Rightarrow> 'a) \<Rightarrow> bool \<Rightarrow>
   ('m, 'a) BreastCancerModule \<Rightarrow> 'a tensor \<times> 'a tensor \<Rightarrow> nat \<Rightarrow>
   (error + 'a tensor \<times> bool) \<times> ('m, 'a) BreastCancerModule" where
  "training_step fwd rule tracking self batch batch_idx =
     (case batch of (x, y) \<Rightarrow>
        (case module_forward fwd self x of
           Inl e \<Rightarrow> (Inl e, self)
         | Inr y_hat \<Rightarrow>
             (case BCEWithLogitsLoss rule y_hat y of
                Inl e \<Rightarrow> (Inl e, self)
              | Inr loss \<Rightarrow>
                  (Inr (loss, tracking),
                   self\<lparr>logged := logged self @ [(''train_loss'', loss)]\<rparr>))))"

definition validation_step ::
  "('m \<Rightarrow> 'a tensor \<Rightarrow> error + 'a tensor) \<Rightarrow> ('a list \<Rightarrow> 'a list \<Rightarrow> 'a) \<Rightarrow> bool \<Rightarrow>
   ('m, 'a) BreastCancerModule \<Rightarrow> 'a tensor \<times> 'a tensor \<Rightarrow> nat \<Rightarrow>
   (error + 'a tensor \<times> bool) \<times> ('m, 'a) BreastCancerModule" where
  "validation_step fwd rule tracking self batch batch_idx =
     (case batch of (x, y) \<Rightarrow>
        (case module_forward fwd self x of
           Inl e \<Rightarrow> (Inl e, self)
         | Inr y_hat \<Rightarrow>
             (case BCEWithLogitsLoss rule y_hat y of
                Inl e \<Rightarrow> (Inl e, self)
              | Inr loss \<Rightarrow>
                  (Inr (loss, tracking),
                   self\<lparr>logged := logged self @ [(''val_loss'', loss)]\<rparr>))))"

section \<open>The epoch loop of the first notebook\<close>

text \<open>
  The variables the loop works on: the model, the optimizer, the two lists of average
  losses, and the engine's switch for gradient tracking. The single training step and
  the single validation step are left to the reader in the notebook; they are arguments
  of the loop here, each a function of a batch and the state that returns the value of
  \<open>loss_value.item()\<close> and the new state, or raises.
\<close>

record ('z, 'o, 'l) notebook =
  model :: "'z nn_Module_scheme"
  optimizer :: 'o
  grad_enabled :: bool
  train_losses :: "'l list"
  validation_losses :: "'l list"

type_synonym ('b, 's, 'l) step = "'b \<Rightarrow> 's \<Rightarrow> (error + 'l) \<times> 's"

text \<open>The loop over a data loader: \<open>epoch_loss += loss_value.item()\<close> after each step.\<close>

fun batch_loop :: "('b, 's, 'l::plus) step \<Rightarrow> 'b list \<Rightarrow> 'l \<Rightarrow> 's \<Rightarrow> (error + 'l) \<times> 's" where
  "batch_loop stp [] epoch_loss s = (Inr epoch_loss, s)"
| "batch_loop stp (b # bs) epoch_loss s =
     (case stp b s of
        (Inl e, s') \<Rightarrow> (Inl e, s')
      | (Inr loss_value, s') \<Rightarrow> batch_loop stp bs (epoch_loss + loss_value) s')"

text \<open>
  Python's division of a float by the length of a loader (\<open>to_float\<close> converts the
  length): it raises for a length of 0.
\<close>

definition truediv :: "(nat \<Rightarrow> 'l) \<Rightarrow> 'l::inverse \<Rightarrow> nat \<Rightarrow> error + 'l" where
  "truediv to_float x n = (if n = 0 then Inl ZeroDivisionError else Inr (x / to_float n))"

text \<open>
  \<open>with torch.no_grad():\<close> switches gradient tracking off for its body and restores the
  previous setting when the body is left, also by an exception.
\<close>

definition no_grad ::
  "(('z, 'o, 'l) notebook \<Rightarrow> 'r \<times> ('z, 'o, 'l) notebook) \<Rightarrow> ('z, 'o, 'l) notebook \<Rightarrow>
   'r \<times> ('z, 'o, 'l) notebook" where
  "no_grad body s =
     (case body (s\<lparr>grad_enabled := False\<rparr>) of
        (r, s') \<Rightarrow> (r, s'\<lparr>grad_enabled := grad_enabled s\<rparr>))"

text \<open>One pass of the body of \<open>for epoch in range(1, n_epochs + 1)\<close>.\<close>

definition run_epoch ::
  "('b, ('z, 'o, 'l) notebook, 'l) step \<Rightarrow> ('b, ('z, 'o, 'l) notebook, 'l) step \<Rightarrow>
   (nat \<Rightarrow> 'l::{zero,plus,inverse}) \<Rightarrow> 'b list \<Rightarrow> 'b list \<Rightarrow> ('z, 'o, 'l) notebook \<Rightarrow>
   (error + 'l \<times> 'l) \<times> ('z, 'o, 'l) notebook" where
  "run_epoch train_stp validation_stp to_float dataloader_train dataloader_validation s =
     (case batch_loop train_stp dataloader_train 0 (s\<lparr>notebook.model := train (notebook.model s)\<rparr>) of
        (Inl e, s1) \<Rightarrow> (Inl e, s1)
      | (Inr epoch_loss_train, s1) \<Rightarrow>
          (case truediv to_float epoch_loss_train (length dataloader_train) of
             Inl e \<Rightarrow> (Inl e, s1)
           | Inr avg_epoch_loss_train \<Rightarrow>
               (case no_grad (batch_loop validation_stp dataloader_validation 0)
                       (s1\<lparr>train_losses := train_losses s1 @ [avg_epoch_loss_train],
                           notebook.model := eval_mode (notebook.model s1)\<rparr>) of
                  (Inl e, s2) \<Rightarrow> (Inl e, s2)
                | (Inr epoch_loss_validation, s2) \<Rightarrow>
                    (case truediv to_float epoch_loss_validation (length dataloader_validation) of
                       Inl e \<Rightarrow> (Inl e, s2)
                     | Inr avg_epoch_loss_validation \<Rightarrow>
                         (Inr (avg_epoch_loss_train, avg_epoch_loss_validation),
                          s2\<lparr>validation_losses :=
                               validation_losses s2 @ [avg_epoch_loss_validation]\<rparr>)))))"

section \<open>The specification's reading of the operations\<close>

text \<open>
  The classifier as the specification describes it, on one sample: a stack of affine
  stages, each followed by the activation, except the final stage, which is affine only.
\<close>

fun stack_on_sample :: "'a::{zero,plus,times,ord} Linear list \<Rightarrow> 'a list \<Rightarrow> 'a list" where
  "stack_on_sample [] v = v"
| "stack_on_sample [l] v = affine l v"
| "stack_on_sample (l # l' # ls) v = stack_on_sample (l' # ls) (map relu (affine l v))"

text \<open>
  A stack of layers takes vectors of width \<open>w\<close> to vectors of width \<open>w'\<close>: every layer
  has the shape its constructor gave it, and each layer's output width is the next
  layer's input width.
\<close>

fun widths_ok :: "nat \<Rightarrow> 'a Linear list \<Rightarrow> nat \<Rightarrow> bool" where
  "widths_ok w [] w' = (w = w')"
| "widths_ok w (l # ls) w' =
     (Linear_ok l \<and> in_features l = w \<and> widths_ok (out_features l) ls w')"

text \<open>
  A split as the specification describes it: the two index lists are disjoint, and
  together they hold every index below \<open>n\<close> exactly once.
\<close>

definition is_partition :: "nat \<Rightarrow> nat list \<Rightarrow> nat list \<Rightarrow> bool" where
  "is_partition n data_train data_validation =
     (distinct (data_train @ data_validation) \<and>
      set data_train \<union> set data_validation = {0..<n})"

text \<open>
  The epoch driver as the specification describes it: a step is applied to every batch
  in order, each on the state the previous one left, and the losses are collected.
\<close>

fun apply_steps :: "('b, 's, 'l) step \<Rightarrow> 'b list \<Rightarrow> 's \<Rightarrow> (error + 'l list) \<times> 's" where
  "apply_steps stp [] s = (Inr [], s)"
| "apply_steps stp (b # bs) s =
     (case stp b s of
        (Inl e, s') \<Rightarrow> (Inl e, s')
      | (Inr l, s') \<Rightarrow>
          (case apply_steps stp bs s' of
             (Inl e, s'') \<Rightarrow> (Inl e, s'')
           | (Inr ls, s'') \<Rightarrow> (Inr (l # ls), s'')))"

section \<open>Example inputs\<close>

text \<open>
  Concrete inputs for the instances below: an initialisation with every weight 1 and
  every bias \<open>- 3\<close>, and a batch of two samples of width 30.
\<close>

definition unit_init :: "nat \<Rightarrow> int init" where
  "unit_init k = (\<lambda>j i. 1, \<lambda>j. - 3)"

definition example_rows :: "int list list" where
  "example_rows = [replicate 30 1, replicate 30 0]"

text \<open>A dataset of two rows with two features each.\<close>

definition example_dataset :: "int CancerDataset" where
  "example_dataset = CancerDataset_init (\<lambda>v. v) (tensor2 2 [[1, 2], [5, 6]]) (tensor1 [0, 1])"

text \<open>
  A state of the first notebook before the first epoch, and a step that returns the
  loss 1 and counts its calls in the optimizer's state, as an update of the optimizer
  would change it.
\<close>

definition example_state :: "(unit, nat, real) notebook" where
  "example_state =
     \<lparr>model = \<lparr>training = True\<rparr>, optimizer = 0, grad_enabled = True,
      train_losses = [], validation_losses = []\<rparr>"

definition counting_step :: "(nat, (unit, nat, real) notebook, real) step" where
  "counting_step b s = (Inr 1, s\<lparr>optimizer := Suc (optimizer s)\<rparr>)"

text \<open>A step that changes nothing and returns its batch, a number, as the loss.\<close>

definition reading_step :: "(nat, (unit, nat, real) notebook, real) step" where
  "reading_step b s = (Inr (real b), s)"

text \<open>
  A step that consults the switch for gradient tracking: it returns its batch as the
  loss and counts in the optimizer's state the calls made with tracking on.
\<close>

definition tracking_step :: "bool \<Rightarrow> (nat, (unit, nat, real) notebook, real) step" where
  "tracking_step tracking b s =
     (Inr (real b), s\<lparr>optimizer := optimizer s + (if tracking then 1 else 0)\<rparr>)"

text \<open>
  A module of the second notebook around the one-layer classifier, a loss rule (the sum
  of the differences of logits and targets) and a batch of the two example rows with
  their targets.
\<close>

definition example_module :: "(int LinearClassifier, int) BreastCancerModule" where
  "example_module = BreastCancerModule_init (LinearClassifier_init unit_init) 0"

definition example_rule :: "int list \<Rightarrow> int list \<Rightarrow> int" where
  "example_rule logits labels = foldl (+) 0 (map2 (-) logits labels)"

definition example_batch :: "int tensor \<times> int tensor" where
  "example_batch = (tensor2 30 example_rows, tensor1 [1, 0])"

section \<open>The classifiers: shapes and stages\<close>

lemma rows_of_concat:
  "list_all (\<lambda>r. length r = k) rows \<Longrightarrow> rows_of (length rows) k (concat rows) = rows"
  by (induction rows) simp_all

lemma length_affine: "Linear_ok l \<Longrightarrow> length (affine l v) = out_features l"
  by (simp add: Linear_ok_def affine_def)

lemma Linear_forward_tensor2:
  assumes "Linear_ok l" and "list_all (\<lambda>r. length r = in_features l) rows"
  shows "Linear_forward l (tensor2 (in_features l) rows) =
         Inr (tensor2 (out_features l) (map (affine l) rows))"
  using assms by (simp add: Linear_forward_def tensor2_def rows_of_concat)

lemma ReLU_tensor2: "ReLU (tensor2 w rows) = tensor2 w (map (map relu) rows)"
  by (simp add: ReLU_def tensor2_def map_concat)

lemma length_stack_on_sample:
  "widths_ok w ls w' \<Longrightarrow> length v = w \<Longrightarrow> length (stack_on_sample ls v) = w'"
proof (induction ls v arbitrary: w rule: stack_on_sample.induct)
  case (1 v)
  then show ?case by simp
next
  case (2 l v)
  then show ?case by (simp add: length_affine)
next
  case (3 l l' ls v)
  from "3.prems" have ok: "Linear_ok l" and rest: "widths_ok (out_features l) (l' # ls) w'"
    by simp_all
  have "length (map relu (affine l v)) = out_features l"
    using ok by (simp add: length_affine)
  with "3.IH" rest show ?case by simp
qed

lemma layers_on_tensor2:
  assumes "ls \<noteq> []" and "widths_ok w ls w'" and "list_all (\<lambda>r. length r = w) rows"
  shows "(case hidden_loop (butlast ls) (tensor2 w rows) of
            Inl e \<Rightarrow> Inl e
          | Inr y \<Rightarrow> Linear_forward (last ls) y) =
         Inr (tensor2 w' (map (stack_on_sample ls) rows))"
  using assms
proof (induction ls arbitrary: w rows)
  case Nil
  then show ?case by simp
next
  case (Cons l ls)
  from Cons.prems have ok: "Linear_ok l" and inw: "in_features l = w"
    and rest: "widths_ok (out_features l) ls w'"
    by simp_all
  have fwd: "Linear_forward l (tensor2 w rows) =
             Inr (tensor2 (out_features l) (map (affine l) rows))"
    using Linear_forward_tensor2 [OF ok] Cons.prems(3) inw by simp
  show ?case
  proof (cases ls)
    case Nil
    with rest fwd show ?thesis by simp
  next
    case (Cons l' ls')
    let ?rows = "map (map relu) (map (affine l) rows)"
    have ne: "ls \<noteq> []" using Cons by simp
    have widths: "list_all (\<lambda>r. length r = out_features l) ?rows"
      using ok by (simp add: list_all_iff length_affine)
    have ih: "(case hidden_loop (butlast ls) (tensor2 (out_features l) ?rows) of
                 Inl e \<Rightarrow> Inl e
               | Inr y \<Rightarrow> Linear_forward (last ls) y) =
              Inr (tensor2 w' (map (stack_on_sample ls) ?rows))"
      by (rule Cons.IH [OF ne rest widths])
    have step: "hidden_loop (butlast (l # ls)) (tensor2 w rows) =
                hidden_loop (butlast ls) (tensor2 (out_features l) ?rows)"
      using ne fwd by (simp add: ReLU_tensor2)
    have "stack_on_sample (l # ls) r = stack_on_sample ls (map relu (affine l r))" for r
      using Cons by simp
    then have maps: "map (stack_on_sample (l # ls)) rows = map (stack_on_sample ls) ?rows"
      by simp
    have lst: "last (l # ls) = last ls" using ne by simp
    show ?thesis by (simp only: step lst maps ih)
  qed
qed

lemma Linear_ok_nn_Linear: "Linear_ok (nn_Linear i n ini)"
  by (simp add: Linear_ok_def nn_Linear_def list_all_iff)

lemma features_nn_Linear:
  "in_features (nn_Linear i n ini) = i" "out_features (nn_Linear i n ini) = n"
  by (simp_all add: nn_Linear_def)

lemma widths_ok_append:
  "widths_ok w (xs @ ys) w' = (\<exists>m. widths_ok w xs m \<and> widths_ok m ys w')"
  by (induction xs arbitrary: w) auto

lemma widths_ok_append_hidden:
  "widths_ok w ls h \<Longrightarrow> widths_ok w (append_hidden n h ini ls) h"
proof (induction n h ini ls rule: append_hidden.induct)
  case (1 h ini ls)
  then show ?case by simp
next
  case (2 n h ini ls)
  have "widths_ok w (ls @ [nn_Linear h h (ini (length ls))]) h"
    using "2.prems" by (auto simp: widths_ok_append Linear_ok_nn_Linear features_nn_Linear)
  then show ?case by (simp add: "2.IH")
qed

lemma widths_ok_BreastCancerClassifier_init:
  "widths_ok 30 (layers (BreastCancerClassifier_init hl h ini)) 1"
proof -
  have "widths_ok 30 [nn_Linear 30 h (ini 0)] h"
    by (simp add: Linear_ok_nn_Linear features_nn_Linear)
  then have "widths_ok 30 (append_hidden (nat (hl - 1)) h ini [nn_Linear 30 h (ini 0)]) h"
    by (rule widths_ok_append_hidden)
  then show ?thesis
    by (auto simp: BreastCancerClassifier_init_def Let_def widths_ok_append
        Linear_ok_nn_Linear features_nn_Linear)
qed

lemma forward_training: "forward (m\<lparr>training := b\<rparr>) x = forward m x"
  by (simp add: forward_def cong: sum.case_cong if_cong)

lemma forward_fixed_training: "forward_fixed (m\<lparr>training := b\<rparr>) x = forward_fixed m x"
  by (simp add: forward_fixed_def cong: sum.case_cong)

lemma forward_linear_training: "forward_linear (m\<lparr>training := b\<rparr>) x = forward_linear m x"
  by (simp add: forward_linear_def)

lemma forward_fixed_as_layers:
  "forward_fixed m x =
     (case hidden_loop (butlast [FixedClassifier.layer1 m, layer2 m, layer3 m]) x of
        Inl e \<Rightarrow> Inl e
      | Inr y \<Rightarrow> Linear_forward (last [FixedClassifier.layer1 m, layer2 m, layer3 m]) y)"
  by (simp add: forward_fixed_def split: sum.splits)

lemma forward_on_batch:
  assumes "list_all (\<lambda>r. length r = 30) rows"
  shows "forward (BreastCancerClassifier_init hl h ini) (tensor2 30 rows) =
         Inr (tensor2 1 (map (stack_on_sample (layers (BreastCancerClassifier_init hl h ini))) rows))"
proof -
  let ?ls = "layers (BreastCancerClassifier_init hl h ini)"
  have ne: "?ls \<noteq> []" by (simp add: BreastCancerClassifier_init_def Let_def)
  have "forward (BreastCancerClassifier_init hl h ini) (tensor2 30 rows) =
        (case hidden_loop (butlast ?ls) (tensor2 30 rows) of
           Inl e \<Rightarrow> Inl e
         | Inr y \<Rightarrow> Linear_forward (last ?ls) y)"
    using ne by (simp add: forward_def split: sum.splits)
  also have "\<dots> = Inr (tensor2 1 (map (stack_on_sample ?ls) rows))"
    by (rule layers_on_tensor2 [OF ne widths_ok_BreastCancerClassifier_init assms])
  finally show ?thesis .
qed

lemma widths_ok_FixedClassifier_init:
  "widths_ok 30 [FixedClassifier.layer1 (FixedClassifier_init ini),
     layer2 (FixedClassifier_init ini), layer3 (FixedClassifier_init ini)] 1"
  by (simp add: FixedClassifier_init_def Linear_ok_nn_Linear features_nn_Linear)

lemma forward_fixed_on_batch:
  assumes "list_all (\<lambda>r. length r = 30) rows"
  shows "forward_fixed (FixedClassifier_init ini) (tensor2 30 rows) =
         Inr (tensor2 1 (map (stack_on_sample
           [FixedClassifier.layer1 (FixedClassifier_init ini),
            layer2 (FixedClassifier_init ini), layer3 (FixedClassifier_init ini)]) rows))"
  unfolding forward_fixed_as_layers
  by (rule layers_on_tensor2 [OF _ widths_ok_FixedClassifier_init assms]) simp

lemma forward_linear_on_batch:
  assumes "list_all (\<lambda>r. length r = 30) rows"
  shows "forward_linear (LinearClassifier_init ini) (tensor2 30 rows) =
         Inr (tensor2 1 (map (stack_on_sample
           [LinearClassifier.layer1 (LinearClassifier_init ini)]) rows))"
proof -
  let ?l = "LinearClassifier.layer1 (LinearClassifier_init ini)"
  have "Linear_ok ?l" "in_features ?l = 30" "out_features ?l = 1"
    by (simp_all add: LinearClassifier_init_def Linear_ok_nn_Linear features_nn_Linear)
  moreover have "stack_on_sample [?l] = affine ?l"
    by (rule ext) simp
  ultimately show ?thesis
    using Linear_forward_tensor2 [of ?l rows] assms by (simp add: forward_linear_def)
qed

lemma concat_singletons:
  "list_all (\<lambda>r. length r = Suc 0) rs \<Longrightarrow> concat rs = map hd rs"
proof (induction rs)
  case Nil
  then show ?case by simp
next
  case (Cons r rs)
  then obtain v where "r = [v]" by (cases r) auto
  with Cons show ?case by simp
qed

lemma numel_squeeze_column: "numel (squeeze (tensor2 1 rs)) = length rs"
  by (simp add: numel_def squeeze_def tensor2_def)

lemma stack_lengths:
  assumes "widths_ok w ls w'" and "list_all (\<lambda>r. length r = w) rows"
  shows "list_all (\<lambda>r. length r = w') (map (stack_on_sample ls) rows)"
  using assms by (simp add: list_all_iff length_stack_on_sample)




lemma widths_ok_LinearClassifier_init:
  "widths_ok 30 [LinearClassifier.layer1 (LinearClassifier_init ini)] 1"
  by (simp add: LinearClassifier_init_def Linear_ok_nn_Linear features_nn_Linear)

lemma shape_tensor2: "shape (tensor2 w rows) = [length rows, w]"
  by (simp add: tensor2_def)

text \<open>
  Claim C5. On a batch of \<open>n\<close> feature vectors of width 30 the prediction returns
  exactly \<open>n\<close> logits, one per sample: the module's \<open>forward\<close> over the three-layer
  and over the configurable classifier, whose \<open>squeeze\<close> leaves a vector of \<open>n\<close> values
  (a single value with no dimension when \<open>n = 1\<close>), and the first notebook's
  classifier, which returns a column of \<open>n\<close> values. It holds for every \<open>n\<close>, every
  parameter value and both modes.
\<close>

theorem predict_returns_one_logit_per_sample:
  assumes "list_all (\<lambda>r. length r = 30) rows"
  shows "(\<exists>logits.
            module_forward forward_fixed
              (self\<lparr>BreastCancerModule.model := (FixedClassifier_init ini)\<lparr>training := b\<rparr>\<rparr>)
              (tensor2 30 rows) = Inr logits \<and>
            numel logits = length rows \<and> length (data logits) = length rows) \<and>
         (\<exists>logits.
            module_forward forward
              (self'\<lparr>BreastCancerModule.model :=
                 (BreastCancerClassifier_init hl h ini)\<lparr>training := b\<rparr>\<rparr>)
              (tensor2 30 rows) = Inr logits \<and>
            numel logits = length rows \<and> length (data logits) = length rows) \<and>
         (\<exists>logits.
            forward_linear ((LinearClassifier_init ini)\<lparr>training := b\<rparr>) (tensor2 30 rows) =
              Inr logits \<and>
            shape logits = [length rows, 1] \<and>
            numel logits = length rows \<and> length (data logits) = length rows)"
proof -
  have count: "numel (squeeze (tensor2 1 (map (stack_on_sample ls) rows))) = length rows \<and>
               length (data (squeeze (tensor2 1 (map (stack_on_sample ls) rows)))) = length rows \<and>
               numel (tensor2 1 (map (stack_on_sample ls) rows)) = length rows \<and>
               length (data (tensor2 1 (map (stack_on_sample ls) rows))) = length rows"
    if "widths_ok 30 ls 1" for ls :: "'a Linear list"
  proof -
    have "list_all (\<lambda>r. length r = Suc 0) (map (stack_on_sample ls) rows)"
      using stack_lengths [OF that assms] by simp
    then have "concat (map (stack_on_sample ls) rows) = map hd (map (stack_on_sample ls) rows)"
      by (rule concat_singletons)
    then show ?thesis
      by (simp add: numel_squeeze_column) (simp add: squeeze_def tensor2_def numel_def)
  qed
  show ?thesis
  proof (intro conjI)
    show "\<exists>logits.
            module_forward forward_fixed
              (self\<lparr>BreastCancerModule.model := (FixedClassifier_init ini)\<lparr>training := b\<rparr>\<rparr>)
              (tensor2 30 rows) = Inr logits \<and>
            numel logits = length rows \<and> length (data logits) = length rows"
      using count [OF widths_ok_FixedClassifier_init [of ini]]
      by (simp add: module_forward_def forward_fixed_training forward_fixed_on_batch [OF assms])
    show "\<exists>logits.
            module_forward forward
              (self'\<lparr>BreastCancerModule.model :=
                 (BreastCancerClassifier_init hl h ini)\<lparr>training := b\<rparr>\<rparr>)
              (tensor2 30 rows) = Inr logits \<and>
            numel logits = length rows \<and> length (data logits) = length rows"
      using count [OF widths_ok_BreastCancerClassifier_init [of hl h ini]]
      by (simp add: module_forward_def forward_training forward_on_batch [OF assms])
    show "\<exists>logits.
            forward_linear ((LinearClassifier_init ini)\<lparr>training := b\<rparr>) (tensor2 30 rows) =
              Inr logits \<and>
            shape logits = [length rows, 1] \<and>
            numel logits = length rows \<and> length (data logits) = length rows"
      using count [OF widths_ok_LinearClassifier_init [of ini]]
      by (simp add: forward_linear_training forward_linear_on_batch [OF assms] shape_tensor2)
  qed
qed



lemma example_rows_width: "list_all (\<lambda>r. length r = 30) example_rows"
  by (simp add: example_rows_def)

theorem predict_returns_one_logit_per_sample_witness:
  "list_all (\<lambda>r. length r = 30) example_rows \<and>
   (\<exists>logits.
      module_forward forward_fixed (BreastCancerModule_init (FixedClassifier_init unit_init) 0)
        (tensor2 30 example_rows) = Inr logits \<and>
      numel logits = 2 \<and> length (data logits) = 2) \<and>
   (\<exists>logits.
      forward_linear (LinearClassifier_init unit_init) (tensor2 30 example_rows) = Inr logits \<and>
      shape logits = [2, 1])"
proof -
  have self: "(BreastCancerModule_init (FixedClassifier_init unit_init) (0::int))
                \<lparr>BreastCancerModule.model := (FixedClassifier_init unit_init)\<lparr>training := True\<rparr>\<rparr> =
              BreastCancerModule_init (FixedClassifier_init unit_init) 0"
    by (simp add: BreastCancerModule_init_def FixedClassifier_init_def)
  have lin: "(LinearClassifier_init unit_init)\<lparr>training := True\<rparr> = LinearClassifier_init unit_init"
    by (simp add: LinearClassifier_init_def)
  have len: "length example_rows = 2" by (simp add: example_rows_def)
  show ?thesis
    using predict_returns_one_logit_per_sample [OF example_rows_width,
        where self = "BreastCancerModule_init (FixedClassifier_init unit_init) 0"
          and ini = unit_init and b = True]
      example_rows_width
    by (simp only: self lin len) blast
qed

lemma append_hidden_Cons:
  "\<exists>rest. append_hidden n h ini (l # ls) = l # rest"
proof (induction n arbitrary: ls)
  case 0
  then show ?case by simp
next
  case (Suc n)
  show ?case using Suc [of "ls @ [nn_Linear h h (ini (length (l # ls)))]"] by simp
qed

lemma Linear_forward_wrong_width:
  "shape x = [] \<or> last (shape x) \<noteq> in_features l \<Longrightarrow> Linear_forward l x = Inl ShapeMismatch"
  by (auto simp: Linear_forward_def)

lemma forward_wrong_width:
  assumes "shape x = [] \<or> last (shape x) \<noteq> 30"
  shows "forward (BreastCancerClassifier_init hl h ini) x = Inl ShapeMismatch"
proof -
  obtain rest where rest: "append_hidden (nat (hl - 1)) h ini [nn_Linear 30 h (ini 0)] =
      nn_Linear 30 h (ini 0) # rest"
    using append_hidden_Cons by blast
  have "Linear_forward (nn_Linear 30 h (ini 0)) x = Inl ShapeMismatch"
    using assms by (intro Linear_forward_wrong_width) (simp add: features_nn_Linear)
  then show ?thesis
    by (simp add: forward_def BreastCancerClassifier_init_def Let_def rest butlast_append)
qed

text \<open>
  Claim C6. A batch that holds at least one feature vector, of a width other than 30,
  makes the prediction fail with the shape mismatch; no logits are returned. This holds
  for the three classifiers and for the module's \<open>forward\<close>.
\<close>

theorem wrong_width_raises_ShapeMismatch:
  assumes "rows \<noteq> []" and "k \<noteq> 30"
  shows "forward ((BreastCancerClassifier_init hl h ini)\<lparr>training := b\<rparr>) (tensor2 k rows) =
           Inl ShapeMismatch \<and>
         forward_linear ((LinearClassifier_init ini)\<lparr>training := b\<rparr>) (tensor2 k rows) =
           Inl ShapeMismatch \<and>
         forward_fixed ((FixedClassifier_init ini)\<lparr>training := b\<rparr>) (tensor2 k rows) =
           Inl ShapeMismatch \<and>
         module_forward forward
           (self\<lparr>BreastCancerModule.model := (BreastCancerClassifier_init hl h ini)\<lparr>training := b\<rparr>\<rparr>)
           (tensor2 k rows) = Inl ShapeMismatch"
proof -
  have x: "shape (tensor2 k rows) = [] \<or> last (shape (tensor2 k rows)) \<noteq> 30"
    using assms(2) by (simp add: shape_tensor2)
  have cfg: "forward (BreastCancerClassifier_init hl h ini) (tensor2 k rows) = Inl ShapeMismatch"
    by (rule forward_wrong_width [OF x])
  have first: "Linear_forward (nn_Linear 30 n (ini 0)) (tensor2 k rows) = Inl ShapeMismatch" for n
    using x by (intro Linear_forward_wrong_width) (simp add: features_nn_Linear)
  have lin: "forward_linear (LinearClassifier_init ini) (tensor2 k rows) = Inl ShapeMismatch"
    by (simp add: forward_linear_def LinearClassifier_init_def first)
  have fxd: "forward_fixed (FixedClassifier_init ini) (tensor2 k rows) = Inl ShapeMismatch"
    by (simp add: forward_fixed_def FixedClassifier_init_def first)
  show ?thesis
    by (simp add: forward_training forward_linear_training forward_fixed_training
        module_forward_def cfg lin fxd)
qed

theorem wrong_width_raises_ShapeMismatch_witness:
  "[[1, 2, 3, 4 :: int]] \<noteq> [] \<and> (4 :: nat) \<noteq> 30 \<and>
   forward (BreastCancerClassifier_init 2 2 unit_init) (tensor2 4 [[1, 2, 3, 4]]) =
     Inl ShapeMismatch \<and>
   forward_linear (LinearClassifier_init unit_init) (tensor2 4 [[1, 2, 3, 4]]) =
     Inl ShapeMismatch"
proof -
  have cfg: "(BreastCancerClassifier_init 2 2 unit_init)\<lparr>training := True\<rparr> =
             BreastCancerClassifier_init 2 2 unit_init"
    by (simp add: BreastCancerClassifier_init_def Let_def)
  have lin: "(LinearClassifier_init unit_init)\<lparr>training := True\<rparr> = LinearClassifier_init unit_init"
    by (simp add: LinearClassifier_init_def)
  have h1: "[[1, 2, 3, 4 :: int]] \<noteq> []" and h2: "(4 :: nat) \<noteq> 30" by simp_all
  from wrong_width_raises_ShapeMismatch [OF h1 h2, where hl = 2 and h = 2 and ini = unit_init and b = True] h1 h2
  show ?thesis by (simp only: cfg lin) blast
qed

text \<open>
  Claim C7. Every constructed classifier computes, on each sample of a batch, the stack
  of its affine stages with the activation after every stage except the last; the last
  stage is affine only and yields one scalar, the logit, per sample. The instance that
  follows has a negative logit, which no activation would let through.
\<close>

theorem stages_activation_except_last:
  assumes "list_all (\<lambda>r. length r = 30) rows"
  shows "forward ((BreastCancerClassifier_init hl h ini)\<lparr>training := b\<rparr>) (tensor2 30 rows) =
           Inr (tensor2 1
             (map (stack_on_sample (layers (BreastCancerClassifier_init hl h ini))) rows)) \<and>
         forward_fixed ((FixedClassifier_init ini)\<lparr>training := b\<rparr>) (tensor2 30 rows) =
           Inr (tensor2 1
             (map (stack_on_sample
                [FixedClassifier.layer1 (FixedClassifier_init ini),
                 layer2 (FixedClassifier_init ini), layer3 (FixedClassifier_init ini)]) rows)) \<and>
         forward_linear ((LinearClassifier_init ini)\<lparr>training := b\<rparr>) (tensor2 30 rows) =
           Inr (tensor2 1
             (map (stack_on_sample [LinearClassifier.layer1 (LinearClassifier_init ini)]) rows)) \<and>
         list_all (\<lambda>r. length r = 1)
           (map (stack_on_sample (layers (BreastCancerClassifier_init hl h ini))) rows) \<and>
         list_all (\<lambda>r. length r = 1)
           (map (stack_on_sample
              [FixedClassifier.layer1 (FixedClassifier_init ini),
               layer2 (FixedClassifier_init ini), layer3 (FixedClassifier_init ini)]) rows) \<and>
         list_all (\<lambda>r. length r = 1)
           (map (stack_on_sample [LinearClassifier.layer1 (LinearClassifier_init ini)]) rows)"
  using stack_lengths [OF widths_ok_BreastCancerClassifier_init assms, where hl1 = hl and h1 = h and ini1 = ini]
    stack_lengths [OF widths_ok_FixedClassifier_init assms, where ini1 = ini]
    stack_lengths [OF widths_ok_LinearClassifier_init assms, where ini1 = ini]
  by (simp only: forward_training forward_fixed_training forward_linear_training
      forward_on_batch [OF assms] forward_fixed_on_batch [OF assms]
      forward_linear_on_batch [OF assms] simp_thms)

theorem stages_activation_except_last_witness:
  "list_all (\<lambda>r. length r = 30) example_rows \<and>
   forward (BreastCancerClassifier_init 0 2 unit_init) (tensor2 30 example_rows) =
     Inr (tensor2 1 [[51], [- 3]]) \<and>
   map (stack_on_sample (layers (BreastCancerClassifier_init 0 2 unit_init))) example_rows =
     [[51], [- 3]]"
proof -
  have cfg: "(BreastCancerClassifier_init 0 2 unit_init)\<lparr>training := True\<rparr> =
             BreastCancerClassifier_init 0 2 unit_init"
    by (simp add: BreastCancerClassifier_init_def Let_def)
  have val: "map (stack_on_sample (layers (BreastCancerClassifier_init 0 2 unit_init)))
               example_rows = [[51], [- 3]]"
    by code_simp
  from stages_activation_except_last [OF example_rows_width, where hl = 0 and h = 2 and ini = unit_init and b = True]
  show ?thesis using example_rows_width by (simp only: cfg val simp_thms)
qed

text \<open>
  Claim C9. The forward computation of every classifier returns the same result, hence
  the same shape, in training mode and in evaluation mode, for every input and every
  parameter value.
\<close>

theorem forward_same_in_train_and_eval:
  "forward (train m) x = forward (eval_mode m) x \<and>
   forward_fixed (train m3) x = forward_fixed (eval_mode m3) x \<and>
   forward_linear (train m1) x = forward_linear (eval_mode m1) x"
  by (simp add: train_def eval_mode_def forward_training forward_fixed_training
      forward_linear_training)

section \<open>The constructor\<close>

lemma length_append_hidden:
  "length (append_hidden n h ini ls) = length ls + n"
  by (induction n h ini ls rule: append_hidden.induct) simp_all

text \<open>
  Claim C10. A hidden-layer count of 0 builds the same classifier as a count of 1: two
  linear layers, 30 to \<open>hidden_neurons\<close> and \<open>hidden_neurons\<close> to 1, with one activation
  between them; in general the constructor builds \<open>max (hidden_layers + 1) 2\<close> layers, so
  that no count yields a direct linear model from 30 inputs to 1 output.
\<close>

theorem zero_hidden_layers_same_as_one:
  "BreastCancerClassifier_init 0 h ini = BreastCancerClassifier_init 1 h ini \<and>
   layers (BreastCancerClassifier_init 0 h ini) =
     [nn_Linear 30 h (ini 0), nn_Linear h 1 (ini 1)] \<and>
   forward (BreastCancerClassifier_init 0 h ini) x =
     (case Linear_forward (nn_Linear 30 h (ini 0)) x of
        Inl e \<Rightarrow> Inl e
      | Inr y \<Rightarrow> Linear_forward (nn_Linear h 1 (ini 1)) (ReLU y)) \<and>
   int (length (layers (BreastCancerClassifier_init n h ini))) = max (n + 1) 2"
  by (simp add: BreastCancerClassifier_init_def forward_def length_append_hidden
      split: sum.splits)

section \<open>The dataset: indexing\<close>

lemma row_of_concat:
  "list_all (\<lambda>r. length r = w) rows \<Longrightarrow> i < length rows \<Longrightarrow>
   take w (drop (i * w) (concat rows)) = rows ! i"
proof (induction rows arbitrary: i)
  case Nil
  then show ?case by simp
next
  case (Cons r rows)
  show ?case
  proof (cases i)
    case 0
    with Cons.prems show ?thesis by simp
  next
    case (Suc j)
    with Cons show ?thesis by simp
  qed
qed

lemma select_tensor2:
  assumes "list_all (\<lambda>r. length r = w) rows" and "0 \<le> j" and "j < int (length rows)"
    and "length rows < 2 ^ 63"
  shows "select (tensor2 w rows) j = Inr (tensor1 (rows ! nat j))"
    and "select (tensor2 w rows) (j - int (length rows)) = Inr (tensor1 (rows ! nat j))"
proof -
  have row: "take w (drop (nat j * w) (concat rows)) = rows ! nat j"
    using assms by (intro row_of_concat) auto
  have len: "length (rows ! nat j) = w"
    using assms by (simp add: list_all_length)
  have bound: "int (length rows) < 2 ^ 63"
    using assms(4) by (metis of_nat_less_iff of_nat_numeral of_nat_power)
  have fits: "fits_int64 j" "fits_int64 (j - int (length rows))"
    using assms(2,3) bound by (simp_all add: fits_int64_def)
  show "select (tensor2 w rows) j = Inr (tensor1 (rows ! nat j))"
    using assms(2,3) row len fits by (simp add: select_def tensor2_def tensor1_def)
  show "select (tensor2 w rows) (j - int (length rows)) = Inr (tensor1 (rows ! nat j))"
    using assms(2,3) row len fits by (simp add: select_def tensor2_def tensor1_def)
qed

lemma select_tensor1:
  assumes "0 \<le> j" and "j < int (length ys)" and "length ys < 2 ^ 63"
  shows "select (tensor1 ys) j = Inr (tensor0 (ys ! nat j))"
    and "select (tensor1 ys) (j - int (length ys)) = Inr (tensor0 (ys ! nat j))"
proof -
  have "take (Suc 0) (drop (nat j) ys) = [ys ! nat j]"
    using assms by (simp add: take_Suc_conv_app_nth)
  moreover have bound: "int (length ys) < 2 ^ 63"
    using assms(3) by (metis of_nat_less_iff of_nat_numeral of_nat_power)
  moreover have "fits_int64 j" "fits_int64 (j - int (length ys))"
    using assms(1,2) bound by (simp_all add: fits_int64_def)
  ultimately show "select (tensor1 ys) j = Inr (tensor0 (ys ! nat j))"
    and "select (tensor1 ys) (j - int (length ys)) = Inr (tensor0 (ys ! nat j))"
    using assms by (simp_all add: select_def tensor1_def tensor0_def)
qed

lemma select_out_of_range:
  assumes "shape t = n # ds" and "idx < - int n \<or> int n \<le> idx" and "fits_int64 idx"
  shows "select t idx = Inl IndexError"
  using assms by (auto simp: select_def)

lemma select_overflow: "\<not> fits_int64 idx \<Longrightarrow> select t idx = Inl ValueError"
  by (simp add: select_def)

text \<open>
  Claim C4, as amended. For a dataset of \<open>n\<close> rows, each feature row of the same width
  and one target per row (\<open>n\<close> below \<open>2 ^ 63\<close>, as the size of a tensor is), \<open>__len__\<close>
  returns \<open>n\<close> and \<open>__getitem__\<close> returns the sample at row \<open>i\<close> for \<open>0 \<le> i < n\<close> and the
  sample at row \<open>n + i\<close> for \<open>- n \<le> i < 0\<close> (a negative index counts from the end). It
  raises \<open>IndexError\<close> for every other \<open>i\<close> that fits a signed 64-bit integer, and
  \<open>ValueError\<close>, the overflow of the index, for every \<open>i\<close> that does not fit.
\<close>

theorem getitem_python_indexing:
  assumes "list_all (\<lambda>r. length r = w) xs" and "length ys = length xs"
    and "length xs < 2 ^ 63"
  shows "len (CancerDataset_init cast (tensor2 w xs) (tensor1 ys)) = Inr (length xs) \<and>
         (0 \<le> i \<and> i < int (length xs) \<longrightarrow>
            getitem (CancerDataset_init cast (tensor2 w xs) (tensor1 ys)) i =
              Inr (tensor1 (map cast (xs ! nat i)), tensor0 (cast (ys ! nat i)))) \<and>
         (- int (length xs) \<le> i \<and> i < 0 \<longrightarrow>
            getitem (CancerDataset_init cast (tensor2 w xs) (tensor1 ys)) i =
              Inr (tensor1 (map cast (xs ! nat (i + int (length xs)))),
                   tensor0 (cast (ys ! nat (i + int (length xs)))))) \<and>
         ((i < - int (length xs) \<or> int (length xs) \<le> i) \<and> fits_int64 i \<longrightarrow>
            getitem (CancerDataset_init cast (tensor2 w xs) (tensor1 ys)) i = Inl IndexError) \<and>
         (i < - (2 ^ 63) \<or> 2 ^ 63 \<le> i \<longrightarrow>
            getitem (CancerDataset_init cast (tensor2 w xs) (tensor1 ys)) i = Inl ValueError)"
proof -
  let ?d = "CancerDataset_init cast (tensor2 w xs) (tensor1 ys)"
  let ?n = "int (length xs)"
  have f: "features ?d = tensor2 w (map (map cast) xs)"
    by (simp add: CancerDataset_init_def tensor2_def map_concat)
  have t: "targets ?d = tensor1 (map cast ys)"
    by (simp add: CancerDataset_init_def tensor1_def)
  have widths: "list_all (\<lambda>r. length r = w) (map (map cast) xs)"
    using assms(1) by (simp add: list_all_iff)
  have nx: "length (map (map cast) xs) < 2 ^ 63" and ny: "length (map cast ys) < 2 ^ 63"
    using assms(2,3) by simp_all
  have row: "getitem ?d j = Inr (tensor1 (map cast (xs ! nat j)), tensor0 (cast (ys ! nat j))) \<and>
             getitem ?d (j - ?n) =
               Inr (tensor1 (map cast (xs ! nat j)), tensor0 (cast (ys ! nat j)))"
    if "0 \<le> j" and "j < ?n" for j
  proof -
    have jx: "j < int (length (map (map cast) xs))" and jy: "j < int (length (map cast ys))"
      using that assms(2) by simp_all
    have "nat j < length xs" "nat j < length ys" using that assms(2) by simp_all
    then show ?thesis
      using select_tensor2 [OF widths that(1) jx nx] select_tensor1 [OF that(1) jy ny] assms(2)
      by (simp add: getitem_def f t)
  qed
  have "len ?d = Inr (length xs)"
    unfolding len_def f by (simp add: tensor2_def)
  moreover have "0 \<le> i \<and> i < ?n \<longrightarrow>
      getitem ?d i = Inr (tensor1 (map cast (xs ! nat i)), tensor0 (cast (ys ! nat i)))"
    using row [of i] by simp
  moreover have "- ?n \<le> i \<and> i < 0 \<longrightarrow>
      getitem ?d i = Inr (tensor1 (map cast (xs ! nat (i + ?n))),
                          tensor0 (cast (ys ! nat (i + ?n))))"
    using row [of "i + ?n"] by simp
  moreover have "(i < - ?n \<or> ?n \<le> i) \<and> fits_int64 i \<longrightarrow> getitem ?d i = Inl IndexError"
  proof
    assume out: "(i < - ?n \<or> ?n \<le> i) \<and> fits_int64 i"
    have "shape (features ?d) = length xs # [w]"
      unfolding f by (simp add: tensor2_def)
    from select_out_of_range [OF this] out show "getitem ?d i = Inl IndexError"
      by (simp add: getitem_def)
  qed
  moreover have "i < - (2 ^ 63) \<or> 2 ^ 63 \<le> i \<longrightarrow> getitem ?d i = Inl ValueError"
  proof
    assume "i < - (2 ^ 63) \<or> 2 ^ 63 \<le> i"
    then have "\<not> fits_int64 i" by (auto simp: fits_int64_def)
    then show "getitem ?d i = Inl ValueError"
      by (simp add: getitem_def select_overflow)
  qed
  ultimately show ?thesis by blast
qed

theorem getitem_python_indexing_witness:
  "list_all (\<lambda>r. length r = 2) [[1, 2], [5, 6 :: int]] \<and>
   length [0, 1 :: int] = length [[1, 2], [5, 6 :: int]] \<and>
   length [[1, 2], [5, 6 :: int]] < 2 ^ 63 \<and>
   len example_dataset = Inr 2 \<and>
   getitem example_dataset 1 = Inr (tensor1 [5, 6], tensor0 1) \<and>
   getitem example_dataset (- 2) = Inr (tensor1 [1, 2], tensor0 0) \<and>
   getitem example_dataset 2 = Inl IndexError \<and>
   getitem example_dataset (- 3) = Inl IndexError \<and>
   getitem example_dataset (2 ^ 63) = Inl ValueError \<and>
   getitem example_dataset (- (2 ^ 63) - 1) = Inl ValueError"
proof -
  have h1: "list_all (\<lambda>r. length r = 2) [[1, 2], [5, 6 :: int]]" by simp
  have h2: "length [0, 1 :: int] = length [[1, 2], [5, 6 :: int]]" by simp
  have h3: "length [[1, 2], [5, 6 :: int]] < 2 ^ 63" by simp
  note inst = getitem_python_indexing [OF h1 h2 h3, where cast = "\<lambda>v. v",
      folded example_dataset_def]
  have "fits_int64 2" "fits_int64 (- 3)" by (simp_all add: fits_int64_def)
  then show ?thesis
    using inst [of 1] inst [of "- 2"] inst [of 2] inst [of "- 3"] inst [of "2 ^ 63"]
      inst [of "- (2 ^ 63) - 1"] h3
    by simp
qed

text \<open>
  Claim C4, as stated, fails: the index \<open>- 1\<close> lies outside the range from 0 up to the
  length, and the dataset of two rows returns its last sample for it instead of raising.
\<close>

theorem getitem_negative_index_counterexample:
  "len example_dataset = Inr 2 \<and> \<not> (0 \<le> (- 1 :: int) \<and> (- 1 :: int) < 2) \<and>
   getitem example_dataset (- 1) = Inr (tensor1 [5, 6], tensor0 1) \<and>
   getitem example_dataset (- 1) \<noteq> Inl IndexError"
  by (simp add: example_dataset_def CancerDataset_init_def len_def getitem_def select_def
      fits_int64_def tensor2_def tensor1_def tensor0_def)

section \<open>The random split: a partition\<close>

lemma length_round_robin: "length (round_robin r i ls) = length ls"
  by (induction r i ls rule: round_robin.induct) simp_all

lemma sum_list_bump:
  fixes ls :: "nat list"
  assumes "k < length ls"
  shows "sum_list (ls[k := ls ! k + 1]) = sum_list ls + 1"
proof -
  have "ls ! k \<le> sum_list ls"
    using assms by (simp add: member_le_sum_list)
  then show ?thesis
    using assms by (simp add: sum_list_update)
qed

lemma sum_list_round_robin:
  "ls \<noteq> [] \<Longrightarrow> sum_list (round_robin r i ls) = sum_list ls + r"
proof (induction r i ls rule: round_robin.induct)
  case (1 i ls)
  then show ?case by simp
next
  case (2 r i ls)
  let ?ls = "ls[i mod length ls := ls ! (i mod length ls) + 1]"
  have "i mod length ls < length ls" using "2.prems" by simp
  then have "sum_list ?ls = sum_list ls + 1" by (rule sum_list_bump)
  moreover have "?ls \<noteq> []" using "2.prems" by simp
  ultimately show ?case using "2.IH" by simp
qed

lemma concat_slices:
  "sum_list ls = length xs \<Longrightarrow> concat (slices ls xs) = xs"
proof (induction ls arbitrary: xs)
  case Nil
  then show ?case by simp
next
  case (Cons l ls)
  then have "sum_list ls = length (drop l xs)" by simp
  then have "concat (slices ls (drop l xs)) = drop l xs" by (rule Cons.IH)
  then show ?case by simp
qed

lemma random_split_two:
  assumes "distinct perm" and "set perm = {0..<n}" and "f1 + f2 \<le> n"
  shows "\<exists>data_train data_validation.
           random_split n [f1, f2] perm = Inr [data_train, data_validation] \<and>
           is_partition n data_train data_validation"
proof -
  let ?ls = "round_robin (n - (f1 + f2)) 0 [f1, f2]"
  have len: "length perm = n"
    using assms(1,2) distinct_card [of perm] by simp
  have total: "sum_list ?ls = n"
    using assms(3) sum_list_round_robin [of "[f1, f2]" "n - (f1 + f2)" 0] by simp
  have "length ?ls = Suc (Suc 0)" by (simp add: length_round_robin)
  then obtain l1 l2 where ls: "?ls = [l1, l2]"
    by (auto simp: length_Suc_conv)
  have "concat (slices ?ls perm) = perm"
    using total len by (intro concat_slices) simp
  then have cat: "take l1 perm @ take l2 (drop l1 perm) = perm"
    by (simp add: ls)
  have rem: "nat (int n - int (sum_list [f1, f2])) = n - (f1 + f2)"
    by simp
  have rs: "random_split n [f1, f2] perm = Inr [take l1 perm, take l2 (drop l1 perm)]"
    unfolding random_split_def Let_def rem using total by (simp add: ls)
  have "is_partition n (take l1 perm) (take l2 (drop l1 perm))"
    unfolding is_partition_def set_append [symmetric] cat using assms(1,2) by simp
  with rs show ?thesis by blast
qed


lemma split_floors_sum: "sum_list (split_floors n) \<le> n"
  by (simp add: split_floors_def)

text \<open>
  Claim C8. The split of a dataset of \<open>n\<close> rows, made from a permutation of the indices
  below \<open>n\<close> as the random generator draws one, consists of a train and a validation
  index list that are disjoint and together hold every index exactly once. This holds
  for the exact floors of \<open>0.8 n\<close> and \<open>0.2 n\<close> and for any floors \<open>f1\<close>, \<open>f2\<close> that do
  not exceed \<open>n\<close> together; floors that exceed \<open>n\<close> produce no split at all.
\<close>

theorem random_split_partitions:
  assumes "distinct perm" and "set perm = {0..<n}"
  shows "(\<exists>data_train data_validation.
            random_split n (split_floors n) perm = Inr [data_train, data_validation] \<and>
            is_partition n data_train data_validation) \<and>
         (f1 + f2 \<le> n \<longrightarrow>
            (\<exists>data_train data_validation.
               random_split n [f1, f2] perm = Inr [data_train, data_validation] \<and>
               is_partition n data_train data_validation)) \<and>
         (n < f1 + f2 \<longrightarrow> random_split n [f1, f2] perm = Inl ValueError)"
proof (intro conjI impI)
  have "(n * 4) div 5 + n div 5 \<le> n"
    using split_floors_sum [of n] by (simp add: split_floors_def)
  from random_split_two [OF assms this]
  show "\<exists>data_train data_validation.
          random_split n (split_floors n) perm = Inr [data_train, data_validation] \<and>
          is_partition n data_train data_validation"
    by (simp add: split_floors_def)
next
  assume "f1 + f2 \<le> n"
  then show "\<exists>data_train data_validation.
          random_split n [f1, f2] perm = Inr [data_train, data_validation] \<and>
          is_partition n data_train data_validation"
    by (rule random_split_two [OF assms])
next
  assume "n < f1 + f2"
  then show "random_split n [f1, f2] perm = Inl ValueError"
    by (simp add: random_split_def)
qed

theorem random_split_partitions_witness:
  "distinct [3, 1, 0, 6, 5, 2, 4 :: nat] \<and> set [3, 1, 0, 6, 5, 2, 4 :: nat] = {0..<7} \<and>
   random_split 7 (split_floors 7) [3, 1, 0, 6, 5, 2, 4] = Inr [[3, 1, 0, 6, 5, 2], [4]] \<and>
   (\<exists>data_train data_validation.
      random_split 7 (split_floors 7) [3, 1, 0, 6, 5, 2, 4] =
        Inr [data_train, data_validation] \<and>
      is_partition 7 data_train data_validation)"
proof -
  have h1: "distinct [3, 1, 0, 6, 5, 2, 4 :: nat]" by simp
  have h2: "set [3, 1, 0, 6, 5, 2, 4 :: nat] = {0..<7}" by code_simp
  have v: "random_split 7 (split_floors 7) [3, 1, 0, 6, 5, 2, 4] = Inr [[3, 1, 0, 6, 5, 2], [4]]"
    by code_simp
  from random_split_partitions [OF h1 h2] h1 h2 v show ?thesis by blast
qed

section \<open>The epoch loop and the validation step\<close>

lemma batch_loop_apply_steps:
  "batch_loop stp bs acc s =
     (case apply_steps stp bs s of
        (Inl e, s') \<Rightarrow> (Inl e, s')
      | (Inr ls, s') \<Rightarrow> (Inr (foldl (+) acc ls), s'))"
proof (induction bs arbitrary: acc s)
  case Nil
  then show ?case by simp
next
  case (Cons b bs)
  show ?case
  proof (cases "stp b s")
    case (Pair r s')
    show ?thesis
    proof (cases r)
      case (Inl e)
      with Pair show ?thesis by simp
    next
      case (Inr l)
      with Pair Cons.IH [of "acc + l" s'] show ?thesis
        by (simp split: prod.splits sum.splits)
    qed
  qed
qed

lemma length_apply_steps:
  "apply_steps stp bs s = (Inr ls, s') \<Longrightarrow> length ls = length bs"
proof (induction bs arbitrary: s ls)
  case Nil
  then show ?case by simp
next
  case (Cons b bs)
  then show ?case
    by (auto split: prod.splits sum.splits)
qed

lemma apply_steps_total:
  assumes "\<forall>b s. \<exists>l s'. stp b s = (Inr l, s')"
  shows "\<exists>ls s'. apply_steps stp bs s = (Inr ls, s')"
proof (induction bs arbitrary: s)
  case Nil
  then show ?case by simp
next
  case (Cons b bs)
  from assms obtain l s1 where "stp b s = (Inr l, s1)" by blast
  moreover from Cons obtain ls s2 where "apply_steps stp bs s1 = (Inr ls, s2)" by blast
  ultimately show ?case by simp
qed

lemma run_epoch_no_train_batches:
  "run_epoch train_stp validation_stp to_float [] dataloader_validation s =
     (Inl ZeroDivisionError, s\<lparr>notebook.model := train (notebook.model s)\<rparr>)"
  by (simp add: run_epoch_def truediv_def)

lemma run_epoch_no_validation_batches:
  assumes "dataloader_train \<noteq> []"
    and "apply_steps train_stp dataloader_train
           (s\<lparr>notebook.model := train (notebook.model s)\<rparr>) = (Inr tls, s1)"
  shows "run_epoch train_stp validation_stp to_float dataloader_train [] s =
           (Inl ZeroDivisionError,
            s1\<lparr>train_losses :=
                  train_losses s1 @ [foldl (+) 0 tls / to_float (length dataloader_train)],
                notebook.model := eval_mode (notebook.model s1)\<rparr>)"
  using assms by (simp add: run_epoch_def batch_loop_apply_steps truediv_def no_grad_def)


text \<open>
  Claim C2. For a non-empty train loader and a non-empty validation loader, one epoch
  applies the training step to every train batch in the loader's order, then the
  validation step to every validation batch in order, each on the state the previous
  step left, and returns the sum of the train losses divided by the number of train
  batches and the sum of the validation losses divided by the number of validation
  batches (the sums taken from 0 in the order of the batches).
\<close>

theorem run_epoch_averages:
  assumes "dataloader_train \<noteq> []" and "dataloader_validation \<noteq> []"
    and "apply_steps train_stp dataloader_train
           (s\<lparr>notebook.model := train (notebook.model s)\<rparr>) = (Inr tls, s1)"
    and "apply_steps validation_stp dataloader_validation
           (s1\<lparr>train_losses :=
                 train_losses s1 @ [foldl (+) 0 tls / to_float (length dataloader_train)],
               notebook.model := eval_mode (notebook.model s1),
               grad_enabled := False\<rparr>) = (Inr vls, s2)"
  shows "run_epoch train_stp validation_stp to_float dataloader_train dataloader_validation s =
           (Inr (foldl (+) 0 tls / to_float (length dataloader_train),
                 foldl (+) 0 vls / to_float (length dataloader_validation)),
            s2\<lparr>grad_enabled := grad_enabled s1,
                validation_losses :=
                  validation_losses s2 @
                    [foldl (+) 0 vls / to_float (length dataloader_validation)]\<rparr>) \<and>
         length tls = length dataloader_train \<and>
         length vls = length dataloader_validation"
proof -
  let ?avg = "foldl (+) 0 tls / to_float (length dataloader_train)"
  have train_loop: "batch_loop train_stp dataloader_train 0
                      (s\<lparr>notebook.model := train (notebook.model s)\<rparr>) = (Inr (foldl (+) 0 tls), s1)"
    using assms(3) by (simp add: batch_loop_apply_steps)
  have avg: "truediv to_float (foldl (+) 0 tls) (length dataloader_train) = Inr ?avg"
    using assms(1) by (simp add: truediv_def)
  have val_loop: "no_grad (batch_loop validation_stp dataloader_validation 0)
                    (s1\<lparr>train_losses := train_losses s1 @ [?avg],
                        notebook.model := eval_mode (notebook.model s1)\<rparr>) =
                  (Inr (foldl (+) 0 vls), s2\<lparr>grad_enabled := grad_enabled s1\<rparr>)"
    using assms(4) by (simp add: no_grad_def batch_loop_apply_steps)
  have avg': "truediv to_float (foldl (+) 0 vls) (length dataloader_validation) =
              Inr (foldl (+) 0 vls / to_float (length dataloader_validation))"
    using assms(2) by (simp add: truediv_def)
  have "run_epoch train_stp validation_stp to_float dataloader_train dataloader_validation s =
          (Inr (?avg, foldl (+) 0 vls / to_float (length dataloader_validation)),
           s2\<lparr>grad_enabled := grad_enabled s1,
               validation_losses :=
                 validation_losses s2 @
                   [foldl (+) 0 vls / to_float (length dataloader_validation)]\<rparr>)"
    by (simp add: run_epoch_def train_loop avg val_loop avg')
  then show ?thesis
    using length_apply_steps [OF assms(3)] length_apply_steps [OF assms(4)] by simp
qed

theorem run_epoch_averages_witness:
  "[0, 1 :: nat] \<noteq> [] \<and> [1, 3, 5 :: nat] \<noteq> [] \<and>
   apply_steps counting_step [0, 1]
     (example_state\<lparr>notebook.model := train (notebook.model example_state)\<rparr>) =
     (Inr [1, 1], example_state\<lparr>optimizer := 2\<rparr>) \<and>
   run_epoch counting_step reading_step real [0, 1] [1, 3, 5] example_state =
     (Inr (1, 3),
      \<lparr>model = \<lparr>training = False\<rparr>, optimizer = 2, grad_enabled = True,
       train_losses = [1], validation_losses = [3]\<rparr>)"
proof -
  have h1: "[0, 1 :: nat] \<noteq> []" and h2: "[1, 3, 5 :: nat] \<noteq> []" by simp_all
  have h3: "apply_steps counting_step [0, 1]
              (example_state\<lparr>notebook.model := train (notebook.model example_state)\<rparr>) =
            (Inr [1, 1], example_state\<lparr>optimizer := 2\<rparr>)"
    by (simp add: counting_step_def example_state_def train_def)
  have h4: "apply_steps reading_step [1, 3, 5]
              (example_state
               \<lparr>optimizer := 2,
                train_losses :=
                  train_losses (example_state\<lparr>optimizer := 2\<rparr>) @
                  [foldl (+) 0 [1, 1] / real (length [0, 1 :: nat])],
                notebook.model := eval_mode (notebook.model (example_state\<lparr>optimizer := 2\<rparr>)),
                grad_enabled := False\<rparr>) =
            (Inr [1, 3, 5],
             \<lparr>model = \<lparr>training = False\<rparr>, optimizer = 2, grad_enabled = False,
              train_losses = [1], validation_losses = []\<rparr>)"
    by (simp add: reading_step_def eval_mode_def example_state_def)
  from run_epoch_averages [where train_stp = counting_step and validation_stp = reading_step
      and to_float = real and s = example_state and ?s1.0 = "example_state\<lparr>optimizer := 2\<rparr>",
      OF h1 h2 h3 h4] h1 h2 h3
  show ?thesis by (simp add: example_state_def)
qed

text \<open>
  Claim C3, as amended. An epoch over an empty train loader fails with the division by
  zero and has only switched the model to training mode. An epoch over an empty
  validation loader, after training steps that succeed, fails with the division by zero
  as well, and the state keeps what the training phase did: the steps' updates, the
  appended average train loss and the evaluation mode. When the training step never
  raises, a second epoch from the state the first one left fails in the same way.
\<close>

theorem run_epoch_empty_loader_fails:
  "run_epoch train_stp validation_stp to_float [] dataloader_validation s =
     (Inl ZeroDivisionError, s\<lparr>notebook.model := train (notebook.model s)\<rparr>) \<and>
   (dataloader_train \<noteq> [] \<and>
    apply_steps train_stp dataloader_train
      (s\<lparr>notebook.model := train (notebook.model s)\<rparr>) = (Inr tls, s1) \<longrightarrow>
    run_epoch train_stp validation_stp to_float dataloader_train [] s =
      (Inl ZeroDivisionError,
       s1\<lparr>train_losses :=
             train_losses s1 @ [foldl (+) 0 tls / to_float (length dataloader_train)],
           notebook.model := eval_mode (notebook.model s1)\<rparr>)) \<and>
   ((\<forall>b s. \<exists>l s'. train_stp b s = (Inr l, s')) \<longrightarrow>
    fst (run_epoch train_stp validation_stp to_float dataloader_train [] s) =
      Inl ZeroDivisionError \<and>
    fst (run_epoch train_stp validation_stp to_float dataloader_train []
          (snd (run_epoch train_stp validation_stp to_float dataloader_train [] s))) =
      Inl ZeroDivisionError)"
proof (intro conjI impI)
  show "run_epoch train_stp validation_stp to_float [] dataloader_validation s =
          (Inl ZeroDivisionError, s\<lparr>notebook.model := train (notebook.model s)\<rparr>)"
    by (rule run_epoch_no_train_batches)
next
  assume "dataloader_train \<noteq> [] \<and>
          apply_steps train_stp dataloader_train
            (s\<lparr>notebook.model := train (notebook.model s)\<rparr>) = (Inr tls, s1)"
  then show "run_epoch train_stp validation_stp to_float dataloader_train [] s =
      (Inl ZeroDivisionError,
       s1\<lparr>train_losses :=
             train_losses s1 @ [foldl (+) 0 tls / to_float (length dataloader_train)],
           notebook.model := eval_mode (notebook.model s1)\<rparr>)"
    by (intro run_epoch_no_validation_batches) simp_all
next
  assume total: "\<forall>b s. \<exists>l s'. train_stp b s = (Inr l, s')"
  have fails: "fst (run_epoch train_stp validation_stp to_float dataloader_train [] s0) =
               Inl ZeroDivisionError" for s0
  proof (cases "dataloader_train = []")
    case True
    then show ?thesis by (simp add: run_epoch_no_train_batches)
  next
    case False
    from apply_steps_total [OF total] obtain ls s' where
      "apply_steps train_stp dataloader_train
         (s0\<lparr>notebook.model := train (notebook.model s0)\<rparr>) = (Inr ls, s')"
      by blast
    from run_epoch_no_validation_batches [OF False this] show ?thesis by simp
  qed
  show "fst (run_epoch train_stp validation_stp to_float dataloader_train [] s) =
        Inl ZeroDivisionError"
    by (rule fails)
  show "fst (run_epoch train_stp validation_stp to_float dataloader_train []
          (snd (run_epoch train_stp validation_stp to_float dataloader_train [] s))) =
        Inl ZeroDivisionError"
    by (rule fails)
qed



theorem run_epoch_empty_loader_fails_witness:
  "run_epoch counting_step reading_step real [] [1] example_state =
     (Inl ZeroDivisionError, example_state) \<and>
   run_epoch counting_step reading_step real [0] [] example_state =
     (Inl ZeroDivisionError,
      \<lparr>model = \<lparr>training = False\<rparr>, optimizer = 1, grad_enabled = True,
       train_losses = [1], validation_losses = []\<rparr>) \<and>
   fst (run_epoch counting_step reading_step real [0] []
         (snd (run_epoch counting_step reading_step real [0] [] example_state))) =
     Inl ZeroDivisionError"
proof -
  have h1: "[0 :: nat] \<noteq> [] \<and>
            apply_steps counting_step [0]
              (example_state\<lparr>notebook.model := train (notebook.model example_state)\<rparr>) =
            (Inr [1], example_state\<lparr>optimizer := 1\<rparr>)"
    by (simp add: counting_step_def example_state_def train_def)
  have h2: "\<forall>b s. \<exists>l s'. counting_step b s = (Inr l, s')"
    by (simp add: counting_step_def)
  note inst = run_epoch_empty_loader_fails [where train_stp = counting_step
      and validation_stp = reading_step and to_float = real and s = example_state
      and dataloader_train = "[0]" and dataloader_validation = "[1]" and tls = "[1]"
      and ?s1.0 = "example_state\<lparr>optimizer := 1\<rparr>"]
  have a: "run_epoch counting_step reading_step real [] [1] example_state =
           (Inl ZeroDivisionError, example_state)"
    using inst [THEN conjunct1] by (simp add: example_state_def train_def)
  have b: "run_epoch counting_step reading_step real [0] [] example_state =
           (Inl ZeroDivisionError,
            \<lparr>model = \<lparr>training = False\<rparr>, optimizer = 1, grad_enabled = True,
             train_losses = [1], validation_losses = []\<rparr>)"
    using inst [THEN conjunct2, THEN conjunct1] h1
    by (simp add: example_state_def eval_mode_def)
  have c: "fst (run_epoch counting_step reading_step real [0] []
                 (snd (run_epoch counting_step reading_step real [0] [] example_state))) =
           Inl ZeroDivisionError"
    using inst [THEN conjunct2, THEN conjunct2] h2 by blast
  from a b c show ?thesis by blast
qed

text \<open>
  Claim C3, as stated, fails: with one train batch and no validation batch the epoch
  fails, and the state it leaves is not the state it started from. The training step has
  run and the average train loss has been appended; the failure is not free of partial
  changes of state.
\<close>

theorem run_epoch_failure_keeps_training_counterexample:
  "fst (run_epoch counting_step reading_step real [0] [] example_state) =
     Inl ZeroDivisionError \<and>
   snd (run_epoch counting_step reading_step real [0] [] example_state) \<noteq> example_state \<and>
   optimizer example_state = 0 \<and>
   optimizer (snd (run_epoch counting_step reading_step real [0] [] example_state)) = 1 \<and>
   train_losses example_state = [] \<and>
   train_losses (snd (run_epoch counting_step reading_step real [0] [] example_state)) = [1]"
  by (simp add: run_epoch_def truediv_def no_grad_def counting_step_def example_state_def
      train_def eval_mode_def)

lemma grad_disabled_update: "\<not> grad_enabled s \<Longrightarrow> s\<lparr>grad_enabled := False\<rparr> = s"
  by (cases s) simp

lemma batch_loop_under_no_grad:
  assumes "\<forall>b s. \<not> grad_enabled s \<longrightarrow> \<not> grad_enabled (snd (stp False b s))"
    and "\<not> grad_enabled s"
  shows "batch_loop (\<lambda>b s. stp (grad_enabled s) b s) bs acc s = batch_loop (stp False) bs acc s"
  using assms(2)
proof (induction bs arbitrary: acc s)
  case Nil
  then show ?case by simp
next
  case (Cons b bs)
  have same: "stp (grad_enabled s) b s = stp False b s"
    using Cons.prems by simp
  show ?case
  proof (cases "stp False b s")
    case (Pair r s')
    then have "\<not> grad_enabled s'"
      using assms(1) Cons.prems by (metis snd_conv)
    with Pair same Cons.IH show ?thesis
      by (simp split: sum.splits)
  qed
qed

text \<open>
  Claim C1, as amended. The validation step of the training module leaves the
  classifier, and with it every parameter, as it was: the step only appends to the
  logged metrics, whatever the batch and whether or not the step succeeds. The step does
  not switch gradient tracking off: its loss carries the gradient graph exactly when
  tracking is on where the step is called. It is the caller that switches tracking off:
  in the epoch loop of the first notebook a validation step that consults the switch,
  and does not turn it on, runs as with the switch off.
\<close>

theorem validation_step_changes_no_parameter:
  "BreastCancerModule.model (snd (validation_step fwd rule tracking self batch batch_idx)) =
     BreastCancerModule.model self \<and>
   (\<exists>entries. snd (validation_step fwd rule tracking self batch batch_idx) =
      self\<lparr>logged := logged self @ entries\<rparr>) \<and>
   (fst (validation_step fwd rule tracking self batch batch_idx) = Inr (loss, requires_grad) \<longrightarrow>
    requires_grad = tracking) \<and>
   ((\<forall>b s. \<not> grad_enabled s \<longrightarrow> \<not> grad_enabled (snd (stp False b s))) \<longrightarrow>
    run_epoch train_stp (\<lambda>b s. stp (grad_enabled s) b s) to_float
      dataloader_train dataloader_validation s =
    run_epoch train_stp (stp False) to_float dataloader_train dataloader_validation s)"
proof (intro conjI impI)
  show "BreastCancerModule.model (snd (validation_step fwd rule tracking self batch batch_idx)) =
        BreastCancerModule.model self"
    by (simp add: validation_step_def split: prod.splits sum.splits)
next
  obtain x y where batch: "batch = (x, y)" by (cases batch)
  show "\<exists>entries. snd (validation_step fwd rule tracking self batch batch_idx) =
          self\<lparr>logged := logged self @ entries\<rparr>"
  proof (cases "module_forward fwd self x")
    case (Inl e)
    then have "snd (validation_step fwd rule tracking self batch batch_idx) =
               self\<lparr>logged := logged self @ []\<rparr>"
      by (simp add: validation_step_def batch)
    then show ?thesis by (rule exI)
  next
    case y_hat: (Inr y_hat)
    show ?thesis
    proof (cases "BCEWithLogitsLoss rule y_hat y")
      case (Inl e)
      with y_hat have "snd (validation_step fwd rule tracking self batch batch_idx) =
                       self\<lparr>logged := logged self @ []\<rparr>"
        by (simp add: validation_step_def batch)
      then show ?thesis by (rule exI)
    next
      case (Inr l)
      with y_hat have "snd (validation_step fwd rule tracking self batch batch_idx) =
                       self\<lparr>logged := logged self @ [(''val_loss'', l)]\<rparr>"
        by (simp add: validation_step_def batch)
      then show ?thesis by (rule exI)
    qed
  qed
next
  assume "fst (validation_step fwd rule tracking self batch batch_idx) =
          Inr (loss, requires_grad)"
  then show "requires_grad = tracking"
    by (auto simp: validation_step_def split: prod.splits sum.splits)
next
  assume keeps: "\<forall>b s. \<not> grad_enabled s \<longrightarrow> \<not> grad_enabled (snd (stp False b s))"
  have eq: "no_grad (batch_loop (\<lambda>b s. stp (grad_enabled s) b s) dataloader_validation 0) =
            no_grad (batch_loop (stp False) dataloader_validation 0)"
    by (rule ext) (simp add: no_grad_def batch_loop_under_no_grad [where stp = stp, OF keeps])
  show "run_epoch train_stp (\<lambda>b s. stp (grad_enabled s) b s) to_float
          dataloader_train dataloader_validation s =
        run_epoch train_stp (stp False) to_float dataloader_train dataloader_validation s"
    unfolding run_epoch_def eq ..
qed

theorem validation_step_changes_no_parameter_witness:
  "validation_step forward_linear example_rule False example_module example_batch 0 =
     (Inr (tensor0 23, False), example_module\<lparr>logged := [(''val_loss'', tensor0 23)]\<rparr>) \<and>
   BreastCancerModule.model
     (snd (validation_step forward_linear example_rule False example_module example_batch 0)) =
     LinearClassifier_init unit_init \<and>
   grad_enabled example_state \<and>
   run_epoch counting_step (\<lambda>b s. tracking_step (grad_enabled s) b s) real
     [0, 1] [1, 3, 5] example_state =
   run_epoch counting_step (tracking_step False) real [0, 1] [1, 3, 5] example_state \<and>
   run_epoch counting_step (tracking_step False) real [0, 1] [1, 3, 5] example_state =
     (Inr (1, 3),
      \<lparr>model = \<lparr>training = False\<rparr>, optimizer = 2, grad_enabled = True,
       train_losses = [1], validation_losses = [3]\<rparr>)"
proof -
  note inst = validation_step_changes_no_parameter [where fwd = forward_linear
      and rule = example_rule and tracking = False and self = example_module
      and batch = example_batch and batch_idx = 0 and loss = "tensor0 23"
      and requires_grad = False and train_stp = counting_step and stp = tracking_step
      and to_float = real and dataloader_train = "[0, 1]"
      and dataloader_validation = "[1, 3, 5]" and s = example_state]
  have val: "validation_step forward_linear example_rule False example_module example_batch 0 =
             (Inr (tensor0 23, False),
              example_module\<lparr>logged := [(''val_loss'', tensor0 23)]\<rparr>)"
    by code_simp
  have "BreastCancerModule.model example_module = LinearClassifier_init unit_init"
    by (simp add: example_module_def BreastCancerModule_init_def)
  with inst [THEN conjunct1]
  have par: "BreastCancerModule.model
               (snd (validation_step forward_linear example_rule False example_module
                  example_batch 0)) =
             LinearClassifier_init unit_init"
    by simp
  have keeps: "\<forall>b s. \<not> grad_enabled s \<longrightarrow> \<not> grad_enabled (snd (tracking_step False b s))"
    by (simp add: tracking_step_def)
  from inst [THEN conjunct2, THEN conjunct2, THEN conjunct2] keeps
  have loop: "run_epoch counting_step (\<lambda>b s. tracking_step (grad_enabled s) b s) real
                [0, 1] [1, 3, 5] example_state =
              run_epoch counting_step (tracking_step False) real [0, 1] [1, 3, 5] example_state"
    by blast
  have on: "grad_enabled example_state"
    by (simp add: example_state_def)
  have res: "run_epoch counting_step (tracking_step False) real [0, 1] [1, 3, 5] example_state =
             (Inr (1, 3),
              \<lparr>model = \<lparr>training = False\<rparr>, optimizer = 2, grad_enabled = True,
               train_losses = [1], validation_losses = [3]\<rparr>)"
    by (simp add: run_epoch_def truediv_def no_grad_def counting_step_def tracking_step_def
        example_state_def train_def eval_mode_def)
  from val par on loop res show ?thesis by blast
qed

text \<open>
  Claim C1, as stated, fails in its second half: called where gradient tracking is on,
  as it is unless a caller has switched it off, the validation step returns a loss that
  carries the gradient graph. The parameters are unchanged all the same.
\<close>

theorem validation_step_tracks_gradient_counterexample:
  "fst (validation_step forward_linear example_rule True example_module example_batch 0) =
     Inr (tensor0 23, True) \<and>
   BreastCancerModule.model
     (snd (validation_step forward_linear example_rule True example_module example_batch 0)) =
     BreastCancerModule.model example_module"
  by code_simp

end
